theory Spec2Isabelle
  imports Complex_Main "HOL-Library.Multiset" "HOL-Library.Sublist"
begin

section \<open>Data model\<close>

text \<open>
  One row of the frame returned by \<^verbatim>\<open>load_data\<close>: a sale line joined with its customer and
  product. The SQL inner join on \<^verbatim>\<open>cliente\<close> and the \<^verbatim>\<open>WHERE\<close> clause on \<^verbatim>\<open>data_emissao\<close> make
  these two columns non-null; the customer attributes, the salesperson and the product
  description may be NULL, which pandas holds as a missing value: \<open>None\<close> here.
  Identifiers are opaque: customers are integers (the group keys are sorted, so they need an
  order), products are strings, dates are day numbers. The numeric columns \<open>quant\<close> and
  \<open>valor_liq\<close> hold floats: a finite float is a rational number, and that is the value kept
  here; how floats are added is not part of the data.
\<close>

type_synonym cliente = int
type_synonym mercadoria = string

record venda =
  cliente :: cliente
  mercadoria :: mercadoria
  data_emissao :: int
  valor_liq :: rat
  quant :: rat
  vendedor :: "string option"
  cidade :: "string option"
  raz_social :: "string option"
  atividade :: "string option"
  rede :: "string option"
  descricao_produto :: "string option"

type_synonym dataframe = "venda list"

section \<open>Cross-sell analysis: \<^verbatim>\<open>analisar_venda_cruzada\<close>\<close>

text \<open>\<^verbatim>\<open>Series.unique()\<close>: the distinct values, in order of first appearance.\<close>

definition unique :: "'a list \<Rightarrow> 'a list" where
  "unique xs = rev (remdups (rev xs))"

record resultado =
  clientes_a :: "cliente set"
  clientes_b :: "cliente set"
  apenas_a :: "cliente set"
  apenas_b :: "cliente set"
  ambos :: "cliente set"
  total_a :: nat
  total_b :: nat
  count_apenas_a :: nat
  count_apenas_b :: nat
  count_ambos :: nat

text \<open>\<^verbatim>\<open>set(df[df['mercadoria'] == produto]['cliente'].unique())\<close>\<close>

definition clientes_de :: "dataframe \<Rightarrow> mercadoria \<Rightarrow> cliente set" where
  "clientes_de df produto = set (unique (map cliente (filter (\<lambda>r. mercadoria r = produto) df)))"

definition analisar_venda_cruzada :: "dataframe \<Rightarrow> mercadoria \<Rightarrow> mercadoria \<Rightarrow> resultado" where
  "analisar_venda_cruzada df produto_a produto_b =
     (let ca = clientes_de df produto_a;
          cb = clientes_de df produto_b;
          so_a = ca - cb;
          so_b = cb - ca;
          amb = ca \<inter> cb
      in \<lparr> clientes_a = ca, clientes_b = cb,
           apenas_a = so_a, apenas_b = so_b, ambos = amb,
           total_a = card ca, total_b = card cb,
           count_apenas_a = card so_a, count_apenas_b = card so_b,
           count_ambos = card amb \<rparr>)"

subsection \<open>The caller's validation (lines 392-397 of \<^verbatim>\<open>main\<close>)\<close>

datatype aviso = Produtos_Iguais

definition validar_e_analisar :: "dataframe \<Rightarrow> mercadoria \<Rightarrow> mercadoria \<Rightarrow> aviso + resultado" where
  "validar_e_analisar df_filtrado produto_a produto_b =
     (if produto_a = produto_b then Inl Produtos_Iguais
      else Inr (analisar_venda_cruzada df_filtrado produto_a produto_b))"

subsection \<open>Conversion rate (line 426 of \<^verbatim>\<open>main\<close>, line 212 of \<^verbatim>\<open>criar_diagrama_venn\<close>)\<close>

text \<open>
  Python's \<^verbatim>\<open>/\<close> on integers raises \<^verbatim>\<open>ZeroDivisionError\<close> on a zero divisor. The quotient is a
  float in the source; it is the exact rational here, so rounding is left out of the model.
\<close>

datatype py_error = ZeroDivisionError

definition py_truediv :: "nat \<Rightarrow> nat \<Rightarrow> py_error + rat" where
  "py_truediv a b = (if b = 0 then Inl ZeroDivisionError else Inr (of_nat a / of_nat b))"

text \<open>
  \<^verbatim>\<open>(resultado['count_ambos'] / resultado['total_a'] * 100) if resultado['total_a'] > 0 else 0\<close>:
  only the chosen branch of a conditional expression is evaluated.
\<close>

definition taxa_conversao :: "resultado \<Rightarrow> py_error + rat" where
  "taxa_conversao res =
     (if total_a res > 0
      then (case py_truediv (count_ambos res) (total_a res) of
              Inl e \<Rightarrow> Inl e
            | Inr q \<Rightarrow> Inr (q * 100))
      else Inr 0)"

section \<open>Filter step (lines 377-389 of \<^verbatim>\<open>main\<close>)\<close>

text \<open>
  \<^verbatim>\<open>Series.isin(values)\<close> on one cell: a missing value is in no list of strings. The selections
  come from a multiselect whose options are the sentinel and the non-null values of the
  column, so they hold strings only.
\<close>

definition isin :: "string option \<Rightarrow> string list \<Rightarrow> bool" where
  "isin v valores = (case v of None \<Rightarrow> False | Some s \<Rightarrow> s \<in> set valores)"

text \<open>One conditional statement of the source per field, applied in the source's order.\<close>

definition filtrar_cidade :: "string list \<Rightarrow> dataframe \<Rightarrow> dataframe" where
  "filtrar_cidade cidade_selecionada df_filtrado =
     (if ''Todas'' \<notin> set cidade_selecionada \<and> length cidade_selecionada > 0
      then filter (\<lambda>r. isin (cidade r) cidade_selecionada) df_filtrado else df_filtrado)"

definition filtrar_vendedor :: "string list \<Rightarrow> dataframe \<Rightarrow> dataframe" where
  "filtrar_vendedor vendedor_selecionado df_filtrado =
     (if ''Todos'' \<notin> set vendedor_selecionado \<and> length vendedor_selecionado > 0
      then filter (\<lambda>r. isin (vendedor r) vendedor_selecionado) df_filtrado else df_filtrado)"

definition filtrar_atividade :: "string list \<Rightarrow> dataframe \<Rightarrow> dataframe" where
  "filtrar_atividade atividade_selecionada df_filtrado =
     (if ''Todas'' \<notin> set atividade_selecionada \<and> length atividade_selecionada > 0
      then filter (\<lambda>r. isin (atividade r) atividade_selecionada) df_filtrado else df_filtrado)"

definition filtrar_rede :: "string list \<Rightarrow> dataframe \<Rightarrow> dataframe" where
  "filtrar_rede rede_selecionada df_filtrado =
     (if ''Todas'' \<notin> set rede_selecionada \<and> length rede_selecionada > 0
      then filter (\<lambda>r. isin (rede r) rede_selecionada) df_filtrado else df_filtrado)"

definition aplicar_filtros ::
  "dataframe \<Rightarrow> string list \<Rightarrow> string list \<Rightarrow> string list \<Rightarrow> string list \<Rightarrow> dataframe" where
  "aplicar_filtros df cidade_selecionada vendedor_selecionado atividade_selecionada rede_selecionada =
     filtrar_rede rede_selecionada
       (filtrar_atividade atividade_selecionada
         (filtrar_vendedor vendedor_selecionado
           (filtrar_cidade cidade_selecionada df)))"

section \<open>Detail tables (lines 453-469, 492-508 and 531-566 of \<^verbatim>\<open>main\<close>)\<close>

subsection \<open>Aggregations of \<^verbatim>\<open>groupby(...).agg\<close>\<close>

text \<open>
  \<^verbatim>\<open>'first'\<close> and \<^verbatim>\<open>'last'\<close> take the first and the last non-missing value of the group in scan
  order, and give a missing value when there is none; \<^verbatim>\<open>'max'\<close> of an empty column is missing.
\<close>

fun agg_first :: "'a option list \<Rightarrow> 'a option" where
  "agg_first [] = None"
| "agg_first (None # xs) = agg_first xs"
| "agg_first (Some x # xs) = Some x"

definition agg_last :: "'a option list \<Rightarrow> 'a option" where
  "agg_last xs = agg_first (rev xs)"

fun agg_max :: "int list \<Rightarrow> int option" where
  "agg_max [] = None"
| "agg_max (x # xs) = Some (fold max xs x)"

text \<open>
  \<^verbatim>\<open>groupby('cliente')\<close> (with its default \<^verbatim>\<open>sort=True\<close>): the group keys are the distinct
  customers of the frame in increasing order, and a group holds the rows of its key in scan
  order.
\<close>

definition chaves :: "dataframe \<Rightarrow> cliente list" where
  "chaves sub = sort (remdups (map cliente sub))"

definition grupo :: "dataframe \<Rightarrow> cliente \<Rightarrow> dataframe" where
  "grupo sub k = filter (\<lambda>r. cliente r = k) sub"

subsection \<open>Rows of the tables, under their final column names\<close>

record linha =
  Cliente :: cliente
  Razao_Social :: "string option"
  Cidade :: "string option"
  Atividade :: "string option"
  Rede :: "string option"
  Ultimo_Vendedor :: "string option"
  Ultima_Compra :: "int option"
  Qtd_Total :: rat

record linha_produto = linha +
  Produto :: "string option"

record linha_ambos = linha +
  Produtos :: "string option"

text \<open>
  \<^verbatim>\<open>'quant': 'sum'\<close> adds the floats of the group's \<open>quant\<close> column with pandas' own summation,
  which rounds. The aggregations take it as the parameter \<open>agg_sum\<close>, applied to the column
  of the group in scan order; nothing is assumed of it.
\<close>

definition agrega :: "(rat list \<Rightarrow> rat) \<Rightarrow> dataframe \<Rightarrow> cliente \<Rightarrow> linha" where
  "agrega agg_sum sub k =
     (let g = grupo sub k
      in \<lparr> Cliente = k,
           Razao_Social = agg_first (map raz_social g),
           Cidade = agg_first (map cidade g),
           Atividade = agg_first (map atividade g),
           Rede = agg_first (map rede g),
           Ultimo_Vendedor = agg_last (map vendedor g),
           Ultima_Compra = agg_max (map data_emissao g),
           Qtd_Total = agg_sum (map quant g) \<rparr>)"

definition agrega_produto :: "(rat list \<Rightarrow> rat) \<Rightarrow> dataframe \<Rightarrow> cliente \<Rightarrow> linha_produto" where
  "agrega_produto agg_sum sub k =
     (let g = grupo sub k
      in \<lparr> Cliente = k,
           Razao_Social = agg_first (map raz_social g),
           Cidade = agg_first (map cidade g),
           Atividade = agg_first (map atividade g),
           Rede = agg_first (map rede g),
           Ultimo_Vendedor = agg_last (map vendedor g),
           Ultima_Compra = agg_max (map data_emissao g),
           Qtd_Total = agg_sum (map quant g),
           Produto = agg_first (map descricao_produto g) \<rparr>)"

text \<open>
  \<^verbatim>\<open>sort_values('Ultima Compra', ascending=False)\<close> is pandas' code, called with its default
  algorithm. The tables take it as the parameter \<open>sort_values\<close>; what is used of it is that it
  returns the rows it was given, in some order.
\<close>

definition reordena :: "('a list \<Rightarrow> 'a list) \<Rightarrow> bool" where
  "reordena sort_values \<longleftrightarrow> (\<forall>t. mset (sort_values t) = mset t)"

subsection \<open>Single-product tables\<close>

definition mascara_produto :: "cliente set \<Rightarrow> mercadoria \<Rightarrow> venda \<Rightarrow> bool" where
  "mascara_produto clientes produto r \<longleftrightarrow> cliente r \<in> clientes \<and> mercadoria r = produto"

definition df_apenas ::
  "(linha_produto list \<Rightarrow> linha_produto list) \<Rightarrow> (rat list \<Rightarrow> rat) \<Rightarrow> dataframe \<Rightarrow> cliente set
     \<Rightarrow> mercadoria \<Rightarrow> linha_produto list" where
  "df_apenas sort_values agg_sum df_filtrado clientes produto =
     (let sub = filter (mascara_produto clientes produto) df_filtrado
      in sort_values (map (agrega_produto agg_sum sub) (chaves sub)))"

text \<open>The table is built only when the partition is not empty; otherwise a notice is shown.\<close>

definition tabela_apenas_a ::
  "(linha_produto list \<Rightarrow> linha_produto list) \<Rightarrow> (rat list \<Rightarrow> rat) \<Rightarrow> dataframe \<Rightarrow> resultado
     \<Rightarrow> mercadoria \<Rightarrow> linha_produto list option" where
  "tabela_apenas_a sort_values agg_sum df_filtrado res produto_a =
     (if card (apenas_a res) > 0
      then Some (df_apenas sort_values agg_sum df_filtrado (apenas_a res) produto_a) else None)"

definition tabela_apenas_b ::
  "(linha_produto list \<Rightarrow> linha_produto list) \<Rightarrow> (rat list \<Rightarrow> rat) \<Rightarrow> dataframe \<Rightarrow> resultado
     \<Rightarrow> mercadoria \<Rightarrow> linha_produto list option" where
  "tabela_apenas_b sort_values agg_sum df_filtrado res produto_b =
     (if card (apenas_b res) > 0
      then Some (df_apenas sort_values agg_sum df_filtrado (apenas_b res) produto_b) else None)"

subsection \<open>The table of the customers of both products\<close>

definition mascara_ambos :: "cliente set \<Rightarrow> venda \<Rightarrow> bool" where
  "mascara_ambos clientes r \<longleftrightarrow> cliente r \<in> clientes"

text \<open>\<^verbatim>\<open>groupby('cliente').agg({'descricao_produto': 'first'}).reset_index()\<close>\<close>

definition df_prod :: "dataframe \<Rightarrow> cliente set \<Rightarrow> mercadoria \<Rightarrow> (cliente \<times> string option) list" where
  "df_prod df_filtrado clientes produto =
     (let sub = filter (mascara_produto clientes produto) df_filtrado
      in map (\<lambda>k. (k, agg_first (map descricao_produto (grupo sub k)))) (chaves sub))"

text \<open>
  \<^verbatim>\<open>left.merge(right, on='cliente', how='left')\<close>: every left row, in order, once per right row
  of the same key, and once with a missing value when the right frame has no such row.
\<close>

definition merge_left ::
  "('l \<Rightarrow> cliente) \<Rightarrow> 'l list \<Rightarrow> (cliente \<times> string option) list \<Rightarrow> ('l \<times> string option) list" where
  "merge_left chave esq dir =
     concat (map (\<lambda>l. case filter (\<lambda>d. fst d = chave l) dir of
                         [] \<Rightarrow> [(l, None)]
                       | ms \<Rightarrow> map (\<lambda>d. (l, snd d)) ms) esq)"

text \<open>
  \<^verbatim>\<open>df_ambos['desc_a'] + ' | ' + df_ambos['desc_b']\<close> on a column of strings and missing
  values: the sum with a missing value is missing.
\<close>

definition mais_str :: "string option \<Rightarrow> string \<Rightarrow> string option" where
  "mais_str x s = (case x of None \<Rightarrow> None | Some a \<Rightarrow> Some (a @ s))"

definition mais :: "string option \<Rightarrow> string option \<Rightarrow> string option" where
  "mais x y = (case x of None \<Rightarrow> None
               | Some a \<Rightarrow> (case y of None \<Rightarrow> None | Some b \<Rightarrow> Some (a @ b)))"

definition linha_com_produtos :: "(linha \<times> string option) \<times> string option \<Rightarrow> linha_ambos" where
  "linha_com_produtos t =
     (case t of ((l, desc_a), desc_b) \<Rightarrow>
        \<lparr> Cliente = Cliente l, Razao_Social = Razao_Social l, Cidade = Cidade l,
          Atividade = Atividade l, Rede = Rede l, Ultimo_Vendedor = Ultimo_Vendedor l,
          Ultima_Compra = Ultima_Compra l, Qtd_Total = Qtd_Total l,
          Produtos = mais (mais_str desc_a '' | '') desc_b \<rparr>)"

definition df_ambos ::
  "(linha_ambos list \<Rightarrow> linha_ambos list) \<Rightarrow> (rat list \<Rightarrow> rat) \<Rightarrow> dataframe \<Rightarrow> cliente set
     \<Rightarrow> mercadoria \<Rightarrow> mercadoria \<Rightarrow> linha_ambos list" where
  "df_ambos sort_values agg_sum df_filtrado clientes produto_a produto_b =
     (let df_prod_a = df_prod df_filtrado clientes produto_a;
          df_prod_b = df_prod df_filtrado clientes produto_b;
          sub = filter (mascara_ambos clientes) df_filtrado;
          agrupado = map (agrega agg_sum sub) (chaves sub);
          m1 = merge_left Cliente agrupado df_prod_a;
          m2 = merge_left (\<lambda>t. Cliente (fst t)) m1 df_prod_b
      in sort_values (map linha_com_produtos m2))"

definition tabela_ambos ::
  "(linha_ambos list \<Rightarrow> linha_ambos list) \<Rightarrow> (rat list \<Rightarrow> rat) \<Rightarrow> dataframe \<Rightarrow> resultado
     \<Rightarrow> mercadoria \<Rightarrow> mercadoria \<Rightarrow> linha_ambos list option" where
  "tabela_ambos sort_values agg_sum df_filtrado res produto_a produto_b =
     (if card (ambos res) > 0
      then Some (df_ambos sort_values agg_sum df_filtrado (ambos res) produto_a produto_b) else None)"

section \<open>Sample data\<close>

text \<open>
  Three sale lines, newest first as \<^verbatim>\<open>load_data\<close> returns them: customer 1 bought PA and PB,
  customer 2 bought PA only.
\<close>

definition exemplo :: dataframe where
  "exemplo =
     [\<lparr> cliente = 1, mercadoria = ''PB'', data_emissao = 20240105, valor_liq = 10, quant = 1,
        vendedor = Some ''V7'', cidade = Some ''Belo Horizonte'', raz_social = Some ''Alfa'',
        atividade = Some ''Varejo'', rede = None, descricao_produto = Some ''Cafe'' \<rparr>,
      \<lparr> cliente = 2, mercadoria = ''PA'', data_emissao = 20240102, valor_liq = 30, quant = 3,
        vendedor = Some ''V9'', cidade = Some ''Contagem'', raz_social = Some ''Beta'',
        atividade = None, rede = Some ''R1'', descricao_produto = Some ''Leite'' \<rparr>,
      \<lparr> cliente = 1, mercadoria = ''PA'', data_emissao = 20240101, valor_liq = 20, quant = 2,
        vendedor = Some ''V8'', cidade = Some ''Belo Horizonte'', raz_social = Some ''Alfa'',
        atividade = Some ''Varejo'', rede = None, descricao_produto = Some ''Leite'' \<rparr>]"

text \<open>
  Customer 1 bought PA and PB, and PA has no description: the left join of \<^verbatim>\<open>load_data\<close> found
  no row for it in \<^verbatim>\<open>mercadorias\<close>, or the row's \<^verbatim>\<open>descricao\<close> is NULL.
\<close>

definition sem_descricao :: dataframe where
  "sem_descricao =
     [\<lparr> cliente = 1, mercadoria = ''PB'', data_emissao = 20240105, valor_liq = 10, quant = 1,
        vendedor = Some ''V7'', cidade = Some ''Belo Horizonte'', raz_social = Some ''Alfa'',
        atividade = Some ''Varejo'', rede = None, descricao_produto = Some ''Cafe'' \<rparr>,
      \<lparr> cliente = 1, mercadoria = ''PA'', data_emissao = 20240101, valor_liq = 20, quant = 2,
        vendedor = Some ''V8'', cidade = Some ''Belo Horizonte'', raz_social = Some ''Alfa'',
        atividade = Some ''Varejo'', rede = None, descricao_produto = None \<rparr>]"

text \<open>
  One reordering of rows by last purchase, newest first, for the examples. Their quantities
  are added with \<open>sum_list\<close>: they are small whole numbers, which floats add exactly.
\<close>

definition por_ultima_compra :: "('a linha_scheme) list \<Rightarrow> ('a linha_scheme) list" where
  "por_ultima_compra t = rev (sort_key (\<lambda>l. case Ultima_Compra l of None \<Rightarrow> 0 | Some d \<Rightarrow> d) t)"

section \<open>Basic facts\<close>

lemma set_unique: "set (unique xs) = set xs"
  by (simp add: unique_def)

lemma distinct_unique: "distinct (unique xs)"
  by (simp add: unique_def)

lemma clientes_de_iff:
  "c \<in> clientes_de df p \<longleftrightarrow> (\<exists>r \<in> set df. cliente r = c \<and> mercadoria r = p)"
  by (auto simp: clientes_de_def set_unique)

lemma finite_clientes_de: "finite (clientes_de df p)"
  by (simp add: clientes_de_def)

section \<open>Properties of the analyzer\<close>

text \<open>
  C1: for every record set and every pair of products, the three sets returned by
  \<^verbatim>\<open>analisar_venda_cruzada\<close> are pairwise disjoint and their union is \<open>A \<union> B\<close>, where \<open>A\<close> is
  the set of customers of the records of product A and \<open>B\<close> that of product B; a customer
  outside \<open>A \<union> B\<close> is in none of the three.
\<close>

theorem analisar_particao:
  "(let A = cliente ` {r \<in> set df. mercadoria r = pa};
        B = cliente ` {r \<in> set df. mercadoria r = pb};
        res = analisar_venda_cruzada df pa pb
    in apenas_a res \<inter> apenas_b res = {}
     \<and> apenas_a res \<inter> ambos res = {}
     \<and> apenas_b res \<inter> ambos res = {}
     \<and> apenas_a res \<union> apenas_b res \<union> ambos res = A \<union> B
     \<and> apenas_a res = A - B \<and> apenas_b res = B - A \<and> ambos res = A \<inter> B
     \<and> (apenas_a res \<union> apenas_b res \<union> ambos res) \<inter> - (A \<union> B) = {})"
proof -
  have a: "clientes_de df pa = cliente ` {r \<in> set df. mercadoria r = pa}"
    and b: "clientes_de df pb = cliente ` {r \<in> set df. mercadoria r = pb}"
    by (auto simp: clientes_de_iff)
  show ?thesis
    unfolding Let_def analisar_venda_cruzada_def a b by (simp, blast)
qed

text \<open>
  C2: the counts returned by the analyzer are the cardinalities of its sets, \<open>total_a\<close> and
  \<open>total_b\<close> are \<open>|A|\<close> and \<open>|B|\<close>, and \<open>|only_a| + |both| = |A|\<close>,
  \<open>|only_b| + |both| = |B|\<close>.
\<close>

theorem analisar_cardinalidades:
  "(let A = cliente ` {r \<in> set df. mercadoria r = pa};
        B = cliente ` {r \<in> set df. mercadoria r = pb};
        res = analisar_venda_cruzada df pa pb
    in total_a res = card A \<and> total_b res = card B
     \<and> count_apenas_a res = card (apenas_a res)
     \<and> count_apenas_b res = card (apenas_b res)
     \<and> count_ambos res = card (ambos res)
     \<and> count_apenas_a res + count_ambos res = total_a res
     \<and> count_apenas_b res + count_ambos res = total_b res)"
proof -
  let ?A = "clientes_de df pa" and ?B = "clientes_de df pb"
  have a: "?A = cliente ` {r \<in> set df. mercadoria r = pa}"
    and b: "?B = cliente ` {r \<in> set df. mercadoria r = pb}"
    by (auto simp: clientes_de_iff)
  have ca: "card (?A - ?B) + card (?A \<inter> ?B) = card ?A"
    using card_Int_Diff [of ?A ?B] finite_clientes_de [of df pa] by simp
  have cb: "card (?B - ?A) + card (?A \<inter> ?B) = card ?B"
    using card_Int_Diff [of ?B ?A] finite_clientes_de [of df pb] by (simp add: Int_commute)
  show ?thesis
    using ca cb unfolding Let_def analisar_venda_cruzada_def a b by simp
qed

text \<open>On the sample data: one customer of PA only, one of both, two of PA, one of PB.\<close>

theorem analisar_cardinalidades_witness:
  "count_apenas_a (analisar_venda_cruzada exemplo ''PA'' ''PB'')
     + count_ambos (analisar_venda_cruzada exemplo ''PA'' ''PB'') = 2
   \<and> total_a (analisar_venda_cruzada exemplo ''PA'' ''PB'') = 2
   \<and> total_b (analisar_venda_cruzada exemplo ''PA'' ''PB'') = 1
   \<and> count_ambos (analisar_venda_cruzada exemplo ''PA'' ''PB'') = 1"
proof -
  have t: "total_b (analisar_venda_cruzada exemplo ''PA'' ''PB'') = 1"
    "count_ambos (analisar_venda_cruzada exemplo ''PA'' ''PB'') = 1"
   "total_a (analisar_venda_cruzada exemplo ''PA'' ''PB'') = 2"
    by code_simp+
  show ?thesis
  using analisar_cardinalidades [of exemplo "''PA''" "''PB''"] t
  by (simp add: Let_def)
qed

lemma compradores_lista:
  "cliente ` {r \<in> set df. mercadoria r = p} = set (map cliente (filter (\<lambda>r. mercadoria r = p) df))"
  by auto

text \<open>The partition of the sample data.\<close>

theorem analisar_particao_witness:
  "apenas_a (analisar_venda_cruzada exemplo ''PA'' ''PB'') = {2}
   \<and> apenas_b (analisar_venda_cruzada exemplo ''PA'' ''PB'') = {}
   \<and> ambos (analisar_venda_cruzada exemplo ''PA'' ''PB'') = {1}"
proof -
  have A: "cliente ` {r \<in> set exemplo. mercadoria r = ''PA''} = {1, 2}"
    unfolding compradores_lista by (auto simp: exemplo_def)
  have B: "cliente ` {r \<in> set exemplo. mercadoria r = ''PB''} = {1}"
    unfolding compradores_lista by (auto simp: exemplo_def)
  show ?thesis
    using analisar_particao [of exemplo "''PA''" "''PB''"]
    unfolding Let_def A B by auto
qed

text \<open>
  C3: the conversion rate is \<open>|both| / |A| * 100\<close> when \<open>|A| > 0\<close> and 0 when \<open>|A| = 0\<close>, in
  particular on the empty record set; its computation never raises \<^verbatim>\<open>ZeroDivisionError\<close>, the
  only error the expression can raise.
\<close>

theorem taxa_conversao_sem_erro:
  "taxa_conversao res =
     Inr (if total_a res > 0 then of_nat (count_ambos res) / of_nat (total_a res) * 100 else 0)
   \<and> (total_a res = 0 \<longrightarrow> taxa_conversao res = Inr 0)
   \<and> taxa_conversao res \<noteq> Inl e
   \<and> taxa_conversao (analisar_venda_cruzada [] pa pb) = Inr 0"
proof -
  have g: "taxa_conversao r =
     Inr (if total_a r > 0 then of_nat (count_ambos r) / of_nat (total_a r) * 100 else 0)"
    for r
    by (simp add: taxa_conversao_def py_truediv_def)
  have e: "total_a (analisar_venda_cruzada [] pa pb) = 0"
    by (simp add: analisar_venda_cruzada_def clientes_de_def unique_def)
  show ?thesis
    unfolding g e by simp
qed

text \<open>The rate is 50 on the sample data, and 0 for a product nobody bought.\<close>

theorem taxa_conversao_sem_erro_witness:
  "taxa_conversao (analisar_venda_cruzada exemplo ''PA'' ''PB'') = Inr 50
   \<and> total_a (analisar_venda_cruzada exemplo ''PC'' ''PA'') = 0
   \<and> taxa_conversao (analisar_venda_cruzada exemplo ''PC'' ''PA'') = Inr 0"
proof -
  have t: "total_a (analisar_venda_cruzada exemplo ''PA'' ''PB'') = 2"
    "count_ambos (analisar_venda_cruzada exemplo ''PA'' ''PB'') = 1"
    by code_simp+
  have z: "total_a (analisar_venda_cruzada exemplo ''PC'' ''PA'') = 0"
    by code_simp
  have "taxa_conversao (analisar_venda_cruzada exemplo ''PA'' ''PB'') = Inr 50"
    using taxa_conversao_sem_erro [of "analisar_venda_cruzada exemplo ''PA'' ''PB''"] t
    by simp
  moreover have "taxa_conversao (analisar_venda_cruzada exemplo ''PC'' ''PA'') = Inr 0"
    using taxa_conversao_sem_erro [of "analisar_venda_cruzada exemplo ''PC'' ''PA''"] z
    by blast
  ultimately show ?thesis using z by simp
qed

text \<open>
  C9: the analyzer has no precondition and no error result; called with the same product
  twice it returns \<open>only_a = {}\<close>, \<open>only_b = {}\<close> and \<open>both = A\<close>, with the counts 0, 0 and
  \<open>|A|\<close>. The test for equal products is the caller's: it stops with a notice before the
  analyzer is called, and calls it otherwise.
\<close>

theorem analisar_produtos_iguais:
  "(let A = cliente ` {r \<in> set df. mercadoria r = p}
    in analisar_venda_cruzada df p p =
         \<lparr> clientes_a = A, clientes_b = A, apenas_a = {}, apenas_b = {}, ambos = A,
           total_a = card A, total_b = card A,
           count_apenas_a = 0, count_apenas_b = 0, count_ambos = card A \<rparr>)
   \<and> validar_e_analisar df p p = Inl Produtos_Iguais
   \<and> (pa \<noteq> pb \<longrightarrow> validar_e_analisar df pa pb = Inr (analisar_venda_cruzada df pa pb))"
proof -
  have a: "clientes_de df p = cliente ` {r \<in> set df. mercadoria r = p}"
    by (auto simp: clientes_de_iff)
  show ?thesis
    unfolding Let_def analisar_venda_cruzada_def validar_e_analisar_def a by simp
qed

text \<open>The sample data analysed for PA against itself, and the caller's two branches.\<close>

theorem analisar_produtos_iguais_witness:
  "analisar_venda_cruzada exemplo ''PA'' ''PA'' =
     \<lparr> clientes_a = {1, 2}, clientes_b = {1, 2}, apenas_a = {}, apenas_b = {}, ambos = {1, 2},
       total_a = 2, total_b = 2, count_apenas_a = 0, count_apenas_b = 0, count_ambos = 2 \<rparr>
   \<and> validar_e_analisar exemplo ''PA'' ''PA'' = Inl Produtos_Iguais
   \<and> ''PA'' \<noteq> ''PB''
   \<and> validar_e_analisar exemplo ''PA'' ''PB'' = Inr (analisar_venda_cruzada exemplo ''PA'' ''PB'')"
proof -
  have A: "cliente ` {r \<in> set exemplo. mercadoria r = ''PA''} = {1, 2}"
    unfolding compradores_lista by (auto simp: exemplo_def)
  show ?thesis
    using analisar_produtos_iguais [of exemplo "''PA''" "''PA''" "''PB''"]
    unfolding Let_def A by simp
qed

section \<open>Properties of the filter step\<close>

lemma isin_iff: "isin v sel \<longleftrightarrow> (\<exists>s \<in> set sel. v = Some s)"
  by (cases v) (auto simp: isin_def)

text \<open>
  C8: for every record set and every selection over the four fields, the filter step keeps
  exactly the records whose attribute is one of the selected values for every field that
  restricts (sentinel absent and selection not empty), a field at the sentinel imposes
  nothing, and the kept records are in the order they had in the input.
\<close>

theorem aplicar_filtros_conjuncao:
  "aplicar_filtros df cs vs ats rs =
     filter (\<lambda>x. (''Todas'' \<notin> set cs \<and> cs \<noteq> [] \<longrightarrow> (\<exists>s \<in> set cs. cidade x = Some s))
               \<and> (''Todos'' \<notin> set vs \<and> vs \<noteq> [] \<longrightarrow> (\<exists>s \<in> set vs. vendedor x = Some s))
               \<and> (''Todas'' \<notin> set ats \<and> ats \<noteq> [] \<longrightarrow> (\<exists>s \<in> set ats. atividade x = Some s))
               \<and> (''Todas'' \<notin> set rs \<and> rs \<noteq> [] \<longrightarrow> (\<exists>s \<in> set rs. rede x = Some s))) df
   \<and> subseq (aplicar_filtros df cs vs ats rs) df"
proof -
  have c: "filtrar_cidade cs d =
      filter (\<lambda>x. ''Todas'' \<notin> set cs \<and> cs \<noteq> [] \<longrightarrow> (\<exists>s \<in> set cs. cidade x = Some s)) d" for d
    by (simp add: filtrar_cidade_def isin_iff)
  have v: "filtrar_vendedor vs d =
      filter (\<lambda>x. ''Todos'' \<notin> set vs \<and> vs \<noteq> [] \<longrightarrow> (\<exists>s \<in> set vs. vendedor x = Some s)) d" for d
    by (simp add: filtrar_vendedor_def isin_iff)
  have a: "filtrar_atividade ats d =
      filter (\<lambda>x. ''Todas'' \<notin> set ats \<and> ats \<noteq> [] \<longrightarrow> (\<exists>s \<in> set ats. atividade x = Some s)) d" for d
    by (simp add: filtrar_atividade_def isin_iff)
  have r: "filtrar_rede rs d =
      filter (\<lambda>x. ''Todas'' \<notin> set rs \<and> rs \<noteq> [] \<longrightarrow> (\<exists>s \<in> set rs. rede x = Some s)) d" for d
    by (simp add: filtrar_rede_def isin_iff)
  have eq: "aplicar_filtros df cs vs ats rs =
     filter (\<lambda>x. (''Todas'' \<notin> set cs \<and> cs \<noteq> [] \<longrightarrow> (\<exists>s \<in> set cs. cidade x = Some s))
               \<and> (''Todos'' \<notin> set vs \<and> vs \<noteq> [] \<longrightarrow> (\<exists>s \<in> set vs. vendedor x = Some s))
               \<and> (''Todas'' \<notin> set ats \<and> ats \<noteq> [] \<longrightarrow> (\<exists>s \<in> set ats. atividade x = Some s))
               \<and> (''Todas'' \<notin> set rs \<and> rs \<noteq> [] \<longrightarrow> (\<exists>s \<in> set rs. rede x = Some s))) df"
    unfolding aplicar_filtros_def c v a r filter_filter
    by (rule filter_cong) auto
  have "subseq (aplicar_filtros df cs vs ats rs) df"
    unfolding eq by (rule subseq_filter_left)
  with eq show ?thesis by (rule conjI)
qed


text \<open>City and salesperson restrict, activity and network do not: one sample row is kept.\<close>

theorem aplicar_filtros_conjuncao_witness:
  "map cliente (aplicar_filtros exemplo [''Belo Horizonte''] [''V8'', ''V9''] [''Todas''] []) = [1]
   \<and> subseq (aplicar_filtros exemplo [''Belo Horizonte''] [''V8'', ''V9''] [''Todas''] []) exemplo"
  using aplicar_filtros_conjuncao [of exemplo "[''Belo Horizonte'']" "[''V8'', ''V9'']" "[''Todas'']" "[]"]
  by (simp add: exemplo_def)

text \<open>
  C10: for each of the four fields, a selection that holds the sentinel, alone or with other
  values, and an empty selection, leave the record set as it was; when this is so for the
  four fields the whole filter step returns its input.
\<close>

theorem sentinela_sem_restricao:
  "((''Todas'' \<in> set cs \<or> cs = []) \<longrightarrow> filtrar_cidade cs df = df)
   \<and> ((''Todos'' \<in> set vs \<or> vs = []) \<longrightarrow> filtrar_vendedor vs df = df)
   \<and> ((''Todas'' \<in> set ats \<or> ats = []) \<longrightarrow> filtrar_atividade ats df = df)
   \<and> ((''Todas'' \<in> set rs \<or> rs = []) \<longrightarrow> filtrar_rede rs df = df)
   \<and> ((''Todas'' \<in> set cs \<or> cs = []) \<and> (''Todos'' \<in> set vs \<or> vs = [])
        \<and> (''Todas'' \<in> set ats \<or> ats = []) \<and> (''Todas'' \<in> set rs \<or> rs = [])
       \<longrightarrow> aplicar_filtros df cs vs ats rs = df)"
  by (auto simp: aplicar_filtros_def filtrar_cidade_def filtrar_vendedor_def
        filtrar_atividade_def filtrar_rede_def)

text \<open>The sentinel beside a city, and an empty selection, on the sample data.\<close>

theorem sentinela_sem_restricao_witness:
  "filtrar_cidade [''Todas'', ''Contagem''] exemplo = exemplo
   \<and> filtrar_vendedor [] exemplo = exemplo
   \<and> aplicar_filtros exemplo [''Todas'', ''Contagem''] [] [''Varejo'', ''Todas''] [''Todas''] = exemplo"
  using sentinela_sem_restricao [where cs = "[''Todas'', ''Contagem'']" and vs = "[]"
      and ats = "[''Varejo'', ''Todas'']" and rs = "[''Todas'']" and df = exemplo]
  by simp

section \<open>Facts about grouping, reordering and merging\<close>

subsection \<open>Grouping\<close>

lemma set_chaves: "set (chaves sub) = cliente ` set sub"
  by (simp add: chaves_def)

lemma distinct_chaves: "distinct (chaves sub)"
  by (simp add: chaves_def)

lemma length_chaves: "length (chaves sub) = card (cliente ` set sub)"
  using distinct_card [OF distinct_chaves, of sub] by (simp add: set_chaves)

lemma grupo_filter:
  "grupo (filter P df) k = filter (\<lambda>r. cliente r = k \<and> P r) df"
  by (simp add: grupo_def conj_commute)

lemma grupo_vazio: "k \<notin> cliente ` set sub \<Longrightarrow> grupo sub k = []"
  by (auto simp: grupo_def filter_empty_conv)

lemma grupo_mascara_produto:
  "k \<in> P \<Longrightarrow> grupo (filter (mascara_produto P p) df) k
     = filter (\<lambda>r. cliente r = k \<and> mercadoria r = p) df"
  unfolding grupo_filter by (rule filter_cong) (auto simp: mascara_produto_def)


lemma chaves_mascara_produto:
  "P \<subseteq> clientes_de df p \<Longrightarrow> cliente ` set (filter (mascara_produto P p) df) = P"
  by (auto simp: mascara_produto_def clientes_de_iff subset_iff image_iff)

lemma chaves_mascara_ambos:
  "P \<subseteq> clientes_de df p \<Longrightarrow> cliente ` set (filter (mascara_ambos P) df) = P"
  by (auto simp: mascara_ambos_def clientes_de_iff subset_iff image_iff)

subsection \<open>Reordering\<close>

lemma reordena_mset: "reordena sv \<Longrightarrow> mset (sv t) = mset t"
  by (simp add: reordena_def)

lemma reordena_set: "reordena sv \<Longrightarrow> set (sv t) = set t"
  by (metis reordena_mset set_mset_mset)

lemma reordena_length: "reordena sv \<Longrightarrow> length (sv t) = length t"
  by (metis reordena_mset size_mset)

lemma reordena_map_mset: "reordena sv \<Longrightarrow> mset (map f (sv t)) = mset (map f t)"
  by (simp add: reordena_mset)

lemma reordena_distinct_map:
  "reordena sv \<Longrightarrow> distinct (map f (sv t)) \<longleftrightarrow> distinct (map f t)"
  using mset_eq_imp_distinct_iff [OF reordena_map_mset] by blast

lemma reordena_por_ultima_compra: "reordena por_ultima_compra"
  by (simp add: reordena_def por_ultima_compra_def)

subsection \<open>Left merge on a frame with one row per key\<close>

lemma filter_chave_distinct:
  "distinct (map fst dir) \<Longrightarrow>
     filter (\<lambda>d. fst d = k) dir = (case map_of dir k of None \<Rightarrow> [] | Some v \<Rightarrow> [(k, v)])"
proof (induction dir)
  case Nil
  then show ?case by simp
next
  case (Cons d dir)
  obtain a b where d: "d = (a, b)" by (cases d)
  show ?case
  proof (cases "a = k")
    case True
    with Cons.prems d have "k \<notin> fst ` set dir" by simp
    then have "filter (\<lambda>d. fst d = k) dir = []"
      by (auto simp: filter_empty_conv)
    with True d show ?thesis by simp
  next
    case False
    with Cons d show ?thesis by simp
  qed
qed

lemma merge_left_distinct:
  assumes "distinct (map fst dir)"
  shows "merge_left chave esq dir =
           map (\<lambda>l. (l, case map_of dir (chave l) of None \<Rightarrow> None | Some v \<Rightarrow> v)) esq"
proof -
  have "(case filter (\<lambda>d. fst d = chave l) dir of
           [] \<Rightarrow> [(l, None)] | ms \<Rightarrow> map (\<lambda>d. (l, snd d)) ms)
        = [(l, case map_of dir (chave l) of None \<Rightarrow> None | Some v \<Rightarrow> v)]" for l
    unfolding filter_chave_distinct [OF assms] by (simp split: option.split)
  then show ?thesis
    by (simp add: merge_left_def)
qed

lemma df_prod_busca:
  "(case map_of (df_prod df P p) k of None \<Rightarrow> None | Some v \<Rightarrow> v)
     = agg_first (map descricao_produto (grupo (filter (mascara_produto P p) df) k))"
proof (cases "k \<in> cliente ` set (filter (mascara_produto P p) df)")
  case True
  then show ?thesis
    by (simp add: df_prod_def Let_def map_of_map_restrict set_chaves del: set_filter)
next
  case False
  then show ?thesis
    by (simp add: df_prod_def Let_def map_of_map_restrict set_chaves grupo_vazio del: set_filter)
qed

lemma distinct_df_prod: "distinct (map fst (df_prod df P p))"
  by (simp add: df_prod_def Let_def comp_def distinct_chaves)

lemma df_ambos_linhas:
  "df_ambos sv agg_sum df P pa pb =
     sv (map (\<lambda>k. linha_com_produtos
                ((agrega agg_sum (filter (mascara_ambos P) df) k,
                  agg_first (map descricao_produto (grupo (filter (mascara_produto P pa) df) k))),
                 agg_first (map descricao_produto (grupo (filter (mascara_produto P pb) df) k))))
           (chaves (filter (mascara_ambos P) df)))"
  by (simp add: df_ambos_def Let_def merge_left_distinct distinct_df_prod df_prod_busca
      comp_def agrega_def del: set_filter)


section \<open>Properties of the detail tables\<close>

subsection \<open>One row per customer\<close>

lemma Cliente_agrega_produto: "Cliente (agrega_produto agg_sum sub k) = k"
  by (simp add: agrega_produto_def Let_def)

lemma Cliente_linha_com_produtos: "Cliente (linha_com_produtos ((agrega agg_sum sub k, x), y)) = k"
  by (simp add: linha_com_produtos_def agrega_def Let_def)

lemma clientes_df_apenas:
  assumes "reordena sv"
  shows "mset (map Cliente (df_apenas sv agg_sum df P p)) = mset (chaves (filter (mascara_produto P p) df))"
proof -
  have "map Cliente (map (agrega_produto agg_sum sub) ks) = ks" for sub ks
    by (simp add: comp_def Cliente_agrega_produto)
  then show ?thesis
    by (simp only: df_apenas_def Let_def reordena_map_mset [OF assms])
qed

lemma clientes_df_ambos:
  assumes "reordena sv"
  shows "mset (map Cliente (df_ambos sv agg_sum df P pa pb)) = mset (chaves (filter (mascara_ambos P) df))"
proof -
  have "map Cliente (map (\<lambda>k. linha_com_produtos ((agrega agg_sum sub k, f k), g k)) ks) = ks"
    for sub f g ks
    by (simp add: comp_def Cliente_linha_com_produtos)
  then show ?thesis
    by (simp only: df_ambos_linhas reordena_map_mset [OF assms])
qed

lemma uma_linha_por_chave:
  assumes m: "mset (map Cliente t) = mset (chaves sub)" and c: "cliente ` set sub = P"
  shows "distinct (map Cliente t) \<and> set (map Cliente t) = P \<and> length t = card P
         \<and> (t = [] \<longleftrightarrow> P = {})"
proof -
  have d: "distinct (map Cliente t)"
    using mset_eq_imp_distinct_iff [OF m] distinct_chaves by blast
  have s: "set (map Cliente t) = P"
    using mset_eq_setD [OF m] c by (simp add: set_chaves)
  have "length (map Cliente t) = length (chaves sub)"
    using m by (metis size_mset)
  then have l: "length t = card P"
    using c by (simp add: length_chaves)
  have "finite P" using c by auto
  then have "t = [] \<longleftrightarrow> P = {}" using l by auto
  with d s l show ?thesis by blast
qed

lemma particoes_contidas:
  "apenas_a (analisar_venda_cruzada df pa pb) \<subseteq> clientes_de df pa"
  "apenas_b (analisar_venda_cruzada df pa pb) \<subseteq> clientes_de df pb"
  "ambos (analisar_venda_cruzada df pa pb) \<subseteq> clientes_de df pa"
  "ambos (analisar_venda_cruzada df pa pb) \<subseteq> clientes_de df pb"
  by (auto simp: analisar_venda_cruzada_def Let_def)

lemma particoes_finitas:
  "finite (apenas_a (analisar_venda_cruzada df pa pb))"
  "finite (apenas_b (analisar_venda_cruzada df pa pb))"
  "finite (ambos (analisar_venda_cruzada df pa pb))"
  by (simp_all add: analisar_venda_cruzada_def Let_def finite_clientes_de)

lemma contagens:
  "count_apenas_a (analisar_venda_cruzada df pa pb) = card (apenas_a (analisar_venda_cruzada df pa pb))"
  "count_apenas_b (analisar_venda_cruzada df pa pb) = card (apenas_b (analisar_venda_cruzada df pa pb))"
  "count_ambos (analisar_venda_cruzada df pa pb) = card (ambos (analisar_venda_cruzada df pa pb))"
  by (simp_all add: analisar_venda_cruzada_def Let_def)

text \<open>
  C4: each of the three detail tables has exactly one row per customer of its partition,
  however many sale lines the customer has: the customers of its rows are distinct, they are
  the partition, and the row count is the partition's count. So a table is empty exactly when
  its partition is; the source then shows a notice and builds no table.
\<close>

theorem tabelas_uma_linha_por_cliente:
  "reordena sv \<Longrightarrow> reordena sv' \<Longrightarrow>
   (let res = analisar_venda_cruzada df pa pb;
        ta = df_apenas sv agg_sum df (apenas_a res) pa;
        tb = df_apenas sv agg_sum df (apenas_b res) pb;
        tab = df_ambos sv' agg_sum df (ambos res) pa pb
    in distinct (map Cliente ta) \<and> set (map Cliente ta) = apenas_a res
       \<and> length ta = count_apenas_a res \<and> (ta = [] \<longleftrightarrow> apenas_a res = {})
     \<and> distinct (map Cliente tb) \<and> set (map Cliente tb) = apenas_b res
       \<and> length tb = count_apenas_b res \<and> (tb = [] \<longleftrightarrow> apenas_b res = {})
     \<and> distinct (map Cliente tab) \<and> set (map Cliente tab) = ambos res
       \<and> length tab = count_ambos res \<and> (tab = [] \<longleftrightarrow> ambos res = {})
     \<and> tabela_apenas_a sv agg_sum df res pa = (if apenas_a res = {} then None else Some ta)
     \<and> tabela_apenas_b sv agg_sum df res pb = (if apenas_b res = {} then None else Some tb)
     \<and> tabela_ambos sv' agg_sum df res pa pb = (if ambos res = {} then None else Some tab))"
proof -
  assume sv: "reordena sv" and sv': "reordena sv'"
  define res where "res = analisar_venda_cruzada df pa pb"
  note sub = particoes_contidas [of df pa pb, folded res_def]
  note fin = particoes_finitas [of df pa pb, folded res_def]
  note cnt = contagens [of df pa pb, folded res_def]
  have a: "distinct (map Cliente (df_apenas sv agg_sum df (apenas_a res) pa))
      \<and> set (map Cliente (df_apenas sv agg_sum df (apenas_a res) pa)) = apenas_a res
      \<and> length (df_apenas sv agg_sum df (apenas_a res) pa) = card (apenas_a res)
      \<and> (df_apenas sv agg_sum df (apenas_a res) pa = [] \<longleftrightarrow> apenas_a res = {})"
    by (rule uma_linha_por_chave [OF clientes_df_apenas [OF sv] chaves_mascara_produto [OF sub(1)]])
  have b: "distinct (map Cliente (df_apenas sv agg_sum df (apenas_b res) pb))
      \<and> set (map Cliente (df_apenas sv agg_sum df (apenas_b res) pb)) = apenas_b res
      \<and> length (df_apenas sv agg_sum df (apenas_b res) pb) = card (apenas_b res)
      \<and> (df_apenas sv agg_sum df (apenas_b res) pb = [] \<longleftrightarrow> apenas_b res = {})"
    by (rule uma_linha_por_chave [OF clientes_df_apenas [OF sv] chaves_mascara_produto [OF sub(2)]])
  have ab: "distinct (map Cliente (df_ambos sv' agg_sum df (ambos res) pa pb))
      \<and> set (map Cliente (df_ambos sv' agg_sum df (ambos res) pa pb)) = ambos res
      \<and> length (df_ambos sv' agg_sum df (ambos res) pa pb) = card (ambos res)
      \<and> (df_ambos sv' agg_sum df (ambos res) pa pb = [] \<longleftrightarrow> ambos res = {})"
    by (rule uma_linha_por_chave [OF clientes_df_ambos [OF sv'] chaves_mascara_ambos [OF sub(3)]])
  have g: "card (apenas_a res) > 0 \<longleftrightarrow> apenas_a res \<noteq> {}"
    "card (apenas_b res) > 0 \<longleftrightarrow> apenas_b res \<noteq> {}"
    "card (ambos res) > 0 \<longleftrightarrow> ambos res \<noteq> {}"
    using fin by (simp_all add: card_gt_0_iff)
  have t: "tabela_apenas_a sv agg_sum df res pa
             = (if apenas_a res = {} then None else Some (df_apenas sv agg_sum df (apenas_a res) pa))"
    "tabela_apenas_b sv agg_sum df res pb
             = (if apenas_b res = {} then None else Some (df_apenas sv agg_sum df (apenas_b res) pb))"
    "tabela_ambos sv' agg_sum df res pa pb
             = (if ambos res = {} then None else Some (df_ambos sv' agg_sum df (ambos res) pa pb))"
    by (simp_all add: tabela_apenas_a_def tabela_apenas_b_def tabela_ambos_def g)
  show ?thesis
    unfolding Let_def res_def [symmetric] cnt using a b ab t by blast
qed

lemma exemplo_particoes:
  "apenas_a (analisar_venda_cruzada exemplo ''PA'' ''PB'') = {2}"
  "apenas_b (analisar_venda_cruzada exemplo ''PA'' ''PB'') = {}"
  "ambos (analisar_venda_cruzada exemplo ''PA'' ''PB'') = {1}"
  "count_apenas_a (analisar_venda_cruzada exemplo ''PA'' ''PB'') = 1"
  "count_apenas_b (analisar_venda_cruzada exemplo ''PA'' ''PB'') = 0"
  "count_ambos (analisar_venda_cruzada exemplo ''PA'' ''PB'') = 1"
  by (auto simp: analisar_venda_cruzada_def Let_def clientes_de_def set_unique exemplo_def)

text \<open>The three tables of the sample data: one row, no table, one row.\<close>

theorem tabelas_uma_linha_por_cliente_witness:
  "reordena (por_ultima_compra :: linha_produto list \<Rightarrow> linha_produto list)
   \<and> reordena (por_ultima_compra :: linha_ambos list \<Rightarrow> linha_ambos list)
   \<and> set (map Cliente (df_apenas por_ultima_compra sum_list exemplo {2} ''PA'')) = {2}
   \<and> length (df_apenas por_ultima_compra sum_list exemplo {2} ''PA'') = 1
   \<and> df_apenas por_ultima_compra sum_list exemplo {} ''PB'' = []
   \<and> tabela_apenas_b por_ultima_compra sum_list exemplo (analisar_venda_cruzada exemplo ''PA'' ''PB'') ''PB'' = None
   \<and> set (map Cliente (df_ambos por_ultima_compra sum_list exemplo {1} ''PA'' ''PB'')) = {1}
   \<and> length (df_ambos por_ultima_compra sum_list exemplo {1} ''PA'' ''PB'') = 1"
proof -
  have p: "reordena (por_ultima_compra :: linha_produto list \<Rightarrow> linha_produto list)"
    by (simp add: reordena_def por_ultima_compra_def)
  have a: "reordena (por_ultima_compra :: linha_ambos list \<Rightarrow> linha_ambos list)"
    by (simp add: reordena_def por_ultima_compra_def)
  show ?thesis
    using tabelas_uma_linha_por_cliente [OF p a, where df = exemplo and pa = "''PA''"
        and pb = "''PB''" and agg_sum = sum_list] p a
    unfolding Let_def exemplo_particoes by simp
qed

subsection \<open>Quantities\<close>




lemma linhas_df_ambos:
  assumes "reordena sv"
  shows "set (df_ambos sv agg_sum df P pa pb)
           = (\<lambda>k. linha_com_produtos
                ((agrega agg_sum (filter (mascara_ambos P) df) k,
                  agg_first (map descricao_produto (grupo (filter (mascara_produto P pa) df) k))),
                 agg_first (map descricao_produto (grupo (filter (mascara_produto P pb) df) k))))
               ` cliente ` set (filter (mascara_ambos P) df)"
  by (simp only: df_ambos_linhas reordena_set [OF assms] set_map set_chaves)









lemma exemplo_clientes_ambos:
  "map Cliente (df_ambos por_ultima_compra sum_list exemplo {1} ''PA'' ''PB'') = [1]"
  by code_simp


subsection \<open>Product descriptions\<close>

lemma Produtos_linha_com_produtos:
  "Produtos (linha_com_produtos ((l, x), y))
     = (case x of None \<Rightarrow> None
        | Some a \<Rightarrow> (case y of None \<Rightarrow> None | Some b \<Rightarrow> Some (a @ '' | '' @ b)))"
  by (simp add: linha_com_produtos_def mais_def mais_str_def split: option.split)

lemma produtos_df_ambos:
  assumes sv: "reordena sv" and suba: "P \<subseteq> clientes_de df pa"
    and l: "l \<in> set (df_ambos sv agg_sum df P pa pb)"
  shows "Produtos l =
     (case agg_first (map descricao_produto
                        (filter (\<lambda>r. cliente r = Cliente l \<and> mercadoria r = pa) df)) of
        None \<Rightarrow> None
      | Some a \<Rightarrow>
          (case agg_first (map descricao_produto
                             (filter (\<lambda>r. cliente r = Cliente l \<and> mercadoria r = pb) df)) of
             None \<Rightarrow> None
           | Some b \<Rightarrow> Some (a @ '' | '' @ b)))"
proof -
  from l obtain k where k: "k \<in> P" and lk: "l = linha_com_produtos
                ((agrega agg_sum (filter (mascara_ambos P) df) k,
                  agg_first (map descricao_produto (grupo (filter (mascara_produto P pa) df) k))),
                 agg_first (map descricao_produto (grupo (filter (mascara_produto P pb) df) k)))"
    unfolding linhas_df_ambos [OF sv] chaves_mascara_ambos [OF suba] by blast
  show ?thesis
    unfolding lk Produtos_linha_com_produtos Cliente_linha_com_produtos
      grupo_mascara_produto [OF k] ..
qed

text \<open>
  C6, as the code has it: in the table of the customers of both products, the products field
  of a row is \<open>desc_a @ '' | '' @ desc_b\<close>, where \<open>desc_a\<close> and \<open>desc_b\<close> are the first
  non-missing descriptions among that customer's sale lines of product A and of product B.
  When one side has no non-missing description the field is missing: the sum of a string
  and a missing value is missing, and no empty string stands in for the missing side.
\<close>

theorem produtos_concatenados:
  "reordena sv \<Longrightarrow>
   (let res = analisar_venda_cruzada df pa pb;
        tab = df_ambos sv agg_sum df (ambos res) pa pb
    in \<forall>l \<in> set tab. Produtos l =
         (case agg_first (map descricao_produto
                            (filter (\<lambda>r. cliente r = Cliente l \<and> mercadoria r = pa) df)) of
            None \<Rightarrow> None
          | Some a \<Rightarrow>
              (case agg_first (map descricao_produto
                                 (filter (\<lambda>r. cliente r = Cliente l \<and> mercadoria r = pb) df)) of
                 None \<Rightarrow> None
               | Some b \<Rightarrow> Some (a @ '' | '' @ b))))"
  unfolding Let_def using produtos_df_ambos [OF _ particoes_contidas(3)] by blast

text \<open>On the sample data customer 1 has both descriptions.\<close>

theorem produtos_concatenados_witness:
  "reordena (por_ultima_compra :: linha_ambos list \<Rightarrow> linha_ambos list)
   \<and> map Produtos (df_ambos por_ultima_compra sum_list exemplo {1} ''PA'' ''PB'') = [Some ''Leite | Cafe'']"
proof -
  have a: "reordena (por_ultima_compra :: linha_ambos list \<Rightarrow> linha_ambos list)"
    by (simp add: reordena_def por_ultima_compra_def)
  from exemplo_clientes_ambos obtain l
    where t: "df_ambos por_ultima_compra sum_list exemplo {1} ''PA'' ''PB'' = [l]" and c: "Cliente l = 1"
    by auto
  have "Produtos l = Some ''Leite | Cafe''"
    using produtos_concatenados [OF a, where df = exemplo and pa = "''PA''" and pb = "''PB''"
        and agg_sum = sum_list]
    unfolding Let_def exemplo_particoes t
    by (simp add: c exemplo_def)
  with a t show ?thesis by simp
qed

text \<open>
  C6 as stated fails when product A has no description: customer 1 bought both products, the
  description of the PB side is \<open>''Cafe''\<close>, and the products field is missing, where the
  claim has \<open>'' | Cafe''\<close>. The table has one row, so every reordering returns it as it is.
\<close>

theorem produtos_lado_ausente_counterexample:
  "ambos (analisar_venda_cruzada sem_descricao ''PA'' ''PB'') = {1}
   \<and> agg_first (map descricao_produto (grupo (filter (mascara_produto {1} ''PA'') sem_descricao) 1)) = None
   \<and> agg_first (map descricao_produto (grupo (filter (mascara_produto {1} ''PB'') sem_descricao) 1)) = Some ''Cafe''
   \<and> map Cliente (df_ambos por_ultima_compra sum_list sem_descricao
            (ambos (analisar_venda_cruzada sem_descricao ''PA'' ''PB'')) ''PA'' ''PB'') = [1]
   \<and> map Produtos (df_ambos por_ultima_compra sum_list sem_descricao
            (ambos (analisar_venda_cruzada sem_descricao ''PA'' ''PB'')) ''PA'' ''PB'') = [None]
   \<and> map Produtos (df_ambos por_ultima_compra sum_list sem_descricao
            (ambos (analisar_venda_cruzada sem_descricao ''PA'' ''PB'')) ''PA'' ''PB'')
       \<noteq> [Some ('''' @ '' | '' @ ''Cafe'')]"
  by code_simp

end
